theory Spec2Isabelle
  imports Main
begin

section \<open>Data model\<close>

text \<open>
  The resolvers of \<^verbatim>\<open>Mutation.js\<close> and \<^verbatim>\<open>Query.js\<close> run against a Prisma store.
  A row of the store is a record, a table is the list of its rows in insertion order,
  and an identifier is a natural number handed out by the store's counter
  (the store's identifiers are non-empty strings, so an identifier is never falsy;
  the absent \<^verbatim>\<open>ctx.request.userId\<close> is \<open>None\<close>).
  Prices, quantities and timestamps are integers of the store (\<open>int\<close>); the store's
  integer fields are small enough for JavaScript to copy them, and to add one to a
  quantity or an hour to a timestamp, exactly. The total of a checkout multiplies prices
  by quantities and adds the products up, which leaves that range: there the arithmetic
  is that of JavaScript numbers, modelled below.
\<close>

type_synonym ident = nat

subsection \<open>JavaScript numbers\<close>

text \<open>
  A JavaScript number is an IEEE 754 double. The numbers the resolvers compute with are
  integers, and a sum or product of integer-valued doubles is the exact result rounded to
  the nearest double (ties to the even significand), which is an integer again, or an
  infinity when the rounded result does not fit. \<open>Num n\<close> is the finite double of
  value \<open>n\<close>; \<open>NonFinite\<close> stands for the infinities and NaN, which every sum or
  product with one of them yields again.
\<close>

datatype js_number = Num int | NonFinite

text \<open>The number of binary digits of a natural number.\<close>

fun bitlen_nat :: "nat \<Rightarrow> nat" where
  "bitlen_nat n = (if n = 0 then 0 else Suc (bitlen_nat (n div 2)))"

declare bitlen_nat.simps [simp del]

text \<open>
  Rounding to 53 significant binary digits: \<open>ulp\<close> is the weight of the last digit
  kept, \<open>q\<close> the digits kept and \<open>r\<close> what is cut off.
\<close>

definition js_round_nat :: "nat \<Rightarrow> nat" where
  "js_round_nat m =
     (let ulp = 2 ^ (bitlen_nat m - 53); q = m div ulp; r = m mod ulp
      in if ulp < 2 * r \<or> (2 * r = ulp \<and> odd q) then (q + 1) * ulp else q * ulp)"

text \<open>The double nearest to an integer; from \<open>2 ^ 1024\<close> on the result is infinite.\<close>

definition js_number_of :: "int \<Rightarrow> js_number" where
  "js_number_of n =
     (let r = js_round_nat (nat \<bar>n\<bar>)
      in if 2 ^ 1024 \<le> r then NonFinite else Num (sgn n * int r))"

fun js_add :: "js_number \<Rightarrow> js_number \<Rightarrow> js_number" where
  "js_add (Num a) (Num b) = js_number_of (a + b)"
| "js_add _ _ = NonFinite"

fun js_mul :: "js_number \<Rightarrow> js_number \<Rightarrow> js_number" where
  "js_mul (Num a) (Num b) = js_number_of (a * b)"
| "js_mul _ _ = NonFinite"

text \<open>\<^verbatim>\<open>Number.isSafeInteger\<close>: the integers of magnitude below \<open>2 ^ 53\<close>.\<close>

definition safe_integer :: "int \<Rightarrow> bool" where
  "safe_integer n = (\<bar>n\<bar> < 2 ^ 53)"

text \<open>\<^verbatim>\<open>bcrypt.hash(plain, cost)\<close> as a symbolic value: one-way, compared by \<^verbatim>\<open>bcrypt.compare\<close> only.\<close>

datatype pwhash = Bcrypt string nat

text \<open>\<^verbatim>\<open>jwt.sign({ userId }, process.env.APP_SECRET)\<close>.\<close>

datatype jwt = Jwt_sign ident

record user =
  u_id :: ident
  u_name :: string
  u_email :: string
  u_password :: pwhash
  u_permissions :: "string list"
  u_resetToken :: "string option"
  u_resetTokenExpiry :: "int option"

record item =
  i_id :: ident
  i_title :: string
  i_description :: string
  i_image :: "string option"
  i_largeImage :: "string option"
  i_price :: int
  i_user :: ident

record cartItem =
  c_id :: ident
  c_quantity :: int
  c_user :: ident
  c_item :: ident

text \<open>
  What \<^verbatim>\<open>{ ...cartItem.item, quantity, user }\<close> holds once \<^verbatim>\<open>delete orderItem.id\<close> has run:
  the selected item fields without the identifier. Spreading \<^verbatim>\<open>null\<close> adds no field,
  which is \<open>None\<close>.
\<close>

record itemCopy =
  ic_title :: string
  ic_price :: int
  ic_description :: string
  ic_image :: "string option"
  ic_largeImage :: "string option"

record orderItem =
  oi_item :: "itemCopy option"
  oi_quantity :: int
  oi_user :: ident

record order =
  o_id :: ident
  o_total :: int
  o_charge :: string
  o_items :: "orderItem list"
  o_user :: ident

text \<open>The payment gateway's interface: the request of \<^verbatim>\<open>stripe.charges.create\<close> and its answer.\<close>

record chargeRequest =
  rq_amount :: js_number
  rq_currency :: string
  rq_source :: string

record charge =
  ch_id :: string
  ch_amount :: int

record mail =
  m_from :: string
  m_to :: string
  m_subject :: string
  m_html :: string

record cookie =
  ck_name :: string
  ck_value :: jwt
  ck_httpOnly :: bool
  ck_maxAge :: int

text \<open>
  The state a resolver acts on: the four tables and the identifier counter of the store,
  the requests sent to the payment gateway, the mails handed to the transport and the
  cookies set on the response.
\<close>

record state =
  users :: "user list"
  items :: "item list"
  cartItems :: "cartItem list"
  orders :: "order list"
  nextId :: ident
  stripe_calls :: "chargeRequest list"
  mails_sent :: "mail list"
  res_cookies :: "cookie list"

text \<open>
  \<^verbatim>\<open>ctx.request\<close>: the \<^verbatim>\<open>userId\<close> decoded from the session cookie and the user the
  middleware loaded for it (identifier and permissions), either of them absent.
\<close>

record actor =
  a_id :: ident
  a_permissions :: "string list"

record request =
  userId :: "ident option"
  req_user :: "actor option"

text \<open>
  What a resolver reads from outside the store during one request: the clock, the random
  bytes (hex encoded), the payment gateway, the mail transport (\<open>Some e\<close> when sending
  fails), the mail template of \<^verbatim>\<open>../mail\<close> and \<^verbatim>\<open>process.env.FRONTEND_URL\<close>.
\<close>

record ext =
  date_now :: int
  randomBytes_hex :: string
  stripe_charges_create :: "chargeRequest \<Rightarrow> string + charge"
  transport_sendMail :: "mail \<Rightarrow> string option"
  makeANiceEmail :: "string \<Rightarrow> string"
  frontend_url :: string

text \<open>
  A thrown value: \<^verbatim>\<open>new Error(message)\<close>, the \<^verbatim>\<open>TypeError\<close> of a property read on
  \<^verbatim>\<open>null\<close> or \<^verbatim>\<open>undefined\<close>, a rejected gateway call, a rejected store call, a
  rejected mail transport, and the failure of \<^verbatim>\<open>hasPermission\<close>.
\<close>

datatype error =
  Error string
  | TypeError
  | StripeError string
  | PrismaError
  | MailError string
  | Forbidden

section \<open>The store\<close>

text \<open>
  The Prisma binding is outside the repository; these are the operations the resolvers
  call on it. A query by a unique field answers the row or \<^verbatim>\<open>null\<close>; an update or a
  delete by a unique field rejects when no row has it; a \<^verbatim>\<open>connect\<close> rejects when
  the row to connect is missing. Identifiers and e-mail addresses are unique in the
  store, so an update or a delete by one of them touches the one row that has it.
\<close>

definition query_user_by_id :: "state \<Rightarrow> ident \<Rightarrow> user option" where
  "query_user_by_id s uid = find (\<lambda>u. u_id u = uid) (users s)"

definition query_user_by_email :: "state \<Rightarrow> string \<Rightarrow> user option" where
  "query_user_by_email s email = find (\<lambda>u. u_email u = email) (users s)"

definition query_item :: "state \<Rightarrow> ident \<Rightarrow> item option" where
  "query_item s iid = find (\<lambda>i. i_id i = iid) (items s)"

definition query_cartItem :: "state \<Rightarrow> ident \<Rightarrow> cartItem option" where
  "query_cartItem s cid = find (\<lambda>c. c_id c = cid) (cartItems s)"

definition query_cartItems :: "state \<Rightarrow> ident \<Rightarrow> ident \<Rightarrow> cartItem list" where
  "query_cartItems s uid iid = filter (\<lambda>c. c_user c = uid \<and> c_item c = iid) (cartItems s)"

text \<open>
  The cart as \<^verbatim>\<open>cart { id quantity item { title price id description image largeImage } }\<close>
  selects it: each cart row of the user with its item joined in (\<^verbatim>\<open>null\<close> when the item
  is gone).
\<close>

record cartLine =
  cl_id :: ident
  cl_quantity :: int
  cl_item :: "item option"

definition query_user_cart :: "state \<Rightarrow> ident \<Rightarrow> cartLine list option" where
  "query_user_cart s uid =
     (case query_user_by_id s uid of
        None \<Rightarrow> None
      | Some u \<Rightarrow>
          Some (map (\<lambda>c. \<lparr>cl_id = c_id c, cl_quantity = c_quantity c,
                           cl_item = query_item s (c_item c)\<rparr>)
                  (filter (\<lambda>c. c_user c = uid) (cartItems s))))"

definition query_users_where_reset :: "state \<Rightarrow> string \<Rightarrow> int \<Rightarrow> user list" where
  \<comment> \<open>\<^verbatim>\<open>where: { resetToken: tok, resetTokenExpiry_gte: t }\<close>\<close>
  "query_users_where_reset s tok t =
     filter (\<lambda>u. u_resetToken u = Some tok
                \<and> (case u_resetTokenExpiry u of None \<Rightarrow> False | Some e \<Rightarrow> t \<le> e))
       (users s)"

definition query_order :: "state \<Rightarrow> ident \<Rightarrow> order option" where
  "query_order s oid = find (\<lambda>ord. o_id ord = oid) (orders s)"

definition query_orders :: "state \<Rightarrow> ident \<Rightarrow> order list" where
  "query_orders s uid = filter (\<lambda>ord. o_user ord = uid) (orders s)"

text \<open>The arguments of \<^verbatim>\<open>createItem\<close> (spread into \<^verbatim>\<open>data\<close>) and of \<^verbatim>\<open>updateItem\<close>
  without \<^verbatim>\<open>id\<close> (a field that is not given stays as it is).\<close>

record itemInput =
  in_title :: string
  in_description :: string
  in_image :: "string option"
  in_largeImage :: "string option"
  in_price :: int

record itemUpdate =
  up_title :: "string option"
  up_description :: "string option"
  up_price :: "int option"

definition apply_itemUpdate :: "itemUpdate \<Rightarrow> item \<Rightarrow> item" where
  "apply_itemUpdate up i =
     i\<lparr>i_title := (case up_title up of None \<Rightarrow> i_title i | Some v \<Rightarrow> v),
       i_description := (case up_description up of None \<Rightarrow> i_description i | Some v \<Rightarrow> v),
       i_price := (case up_price up of None \<Rightarrow> i_price i | Some v \<Rightarrow> v)\<rparr>"

definition mutation_createItem :: "ident \<Rightarrow> itemInput \<Rightarrow> state \<Rightarrow> (error + item) \<times> state" where
  "mutation_createItem uid d s =
     (case query_user_by_id s uid of
        None \<Rightarrow> (Inl PrismaError, s)
      | Some u \<Rightarrow>
          (let it = \<lparr>i_id = nextId s, i_title = in_title d, i_description = in_description d,
                     i_image = in_image d, i_largeImage = in_largeImage d,
                     i_price = in_price d, i_user = uid\<rparr>
           in (Inr it, s\<lparr>items := items s @ [it], nextId := Suc (nextId s)\<rparr>)))"

definition mutation_updateItem :: "ident \<Rightarrow> itemUpdate \<Rightarrow> state \<Rightarrow> (error + item) \<times> state" where
  "mutation_updateItem iid up s =
     (case query_item s iid of
        None \<Rightarrow> (Inl PrismaError, s)
      | Some i \<Rightarrow>
          (Inr (apply_itemUpdate up i),
           s\<lparr>items := map (\<lambda>r. if i_id r = iid then apply_itemUpdate up r else r) (items s)\<rparr>))"

definition mutation_deleteItem :: "ident \<Rightarrow> state \<Rightarrow> (error + item) \<times> state" where
  "mutation_deleteItem iid s =
     (case query_item s iid of
        None \<Rightarrow> (Inl PrismaError, s)
      | Some i \<Rightarrow> (Inr i, s\<lparr>items := filter (\<lambda>r. i_id r \<noteq> iid) (items s)\<rparr>))"

text \<open>\<^verbatim>\<open>createUser\<close> rejects an e-mail address that a user already has (the field is unique).\<close>

definition mutation_createUser ::
  "string \<Rightarrow> string \<Rightarrow> pwhash \<Rightarrow> string list \<Rightarrow> state \<Rightarrow> (error + user) \<times> state" where
  "mutation_createUser name email password permissions s =
     (case query_user_by_email s email of
        Some u \<Rightarrow> (Inl PrismaError, s)
      | None \<Rightarrow>
          (let u = \<lparr>u_id = nextId s, u_name = name, u_email = email, u_password = password,
                    u_permissions = permissions, u_resetToken = None,
                    u_resetTokenExpiry = None\<rparr>
           in (Inr u, s\<lparr>users := users s @ [u], nextId := Suc (nextId s)\<rparr>)))"

definition mutation_updateUser_by_email ::
  "string \<Rightarrow> (user \<Rightarrow> user) \<Rightarrow> state \<Rightarrow> (error + user) \<times> state" where
  "mutation_updateUser_by_email email f s =
     (case query_user_by_email s email of
        None \<Rightarrow> (Inl PrismaError, s)
      | Some u \<Rightarrow>
          (Inr (f u), s\<lparr>users := map (\<lambda>r. if u_email r = email then f r else r) (users s)\<rparr>))"

definition mutation_updateUser_by_id ::
  "ident \<Rightarrow> (user \<Rightarrow> user) \<Rightarrow> state \<Rightarrow> (error + user) \<times> state" where
  "mutation_updateUser_by_id uid f s =
     (case query_user_by_id s uid of
        None \<Rightarrow> (Inl PrismaError, s)
      | Some u \<Rightarrow>
          (Inr (f u), s\<lparr>users := map (\<lambda>r. if u_id r = uid then f r else r) (users s)\<rparr>))"

text \<open>
  Modelled from the spec: the datamodel that gives a new CartItem its quantity is not
  part of the sources; the spec has \<^verbatim>\<open>addToCart\<close> create the CartItem
  "with quantity 1".
\<close>

definition cartItem_default_quantity :: int where
  "cartItem_default_quantity = 1"

definition mutation_createCartItem :: "ident \<Rightarrow> ident \<Rightarrow> state \<Rightarrow> (error + cartItem) \<times> state" where
  "mutation_createCartItem uid iid s =
     (case query_user_by_id s uid of
        None \<Rightarrow> (Inl PrismaError, s)
      | Some u \<Rightarrow>
          (case query_item s iid of
             None \<Rightarrow> (Inl PrismaError, s)
           | Some i \<Rightarrow>
               (let c = \<lparr>c_id = nextId s, c_quantity = cartItem_default_quantity,
                         c_user = uid, c_item = iid\<rparr>
                in (Inr c, s\<lparr>cartItems := cartItems s @ [c], nextId := Suc (nextId s)\<rparr>))))"

definition mutation_updateCartItem :: "ident \<Rightarrow> int \<Rightarrow> state \<Rightarrow> (error + cartItem) \<times> state" where
  \<comment> \<open>\<^verbatim>\<open>updateCartItem({ where: { id }, data: { quantity } })\<close>\<close>
  "mutation_updateCartItem cid q s =
     (case query_cartItem s cid of
        None \<Rightarrow> (Inl PrismaError, s)
      | Some c \<Rightarrow>
          (Inr (c\<lparr>c_quantity := q\<rparr>),
           s\<lparr>cartItems := map (\<lambda>r. if c_id r = cid then r\<lparr>c_quantity := q\<rparr> else r)
                              (cartItems s)\<rparr>))"

definition mutation_deleteCartItem :: "ident \<Rightarrow> state \<Rightarrow> (error + cartItem) \<times> state" where
  "mutation_deleteCartItem cid s =
     (case query_cartItem s cid of
        None \<Rightarrow> (Inl PrismaError, s)
      | Some c \<Rightarrow> (Inr c, s\<lparr>cartItems := filter (\<lambda>r. c_id r \<noteq> cid) (cartItems s)\<rparr>))"

definition mutation_createOrder ::
  "int \<Rightarrow> string \<Rightarrow> orderItem list \<Rightarrow> ident \<Rightarrow> state \<Rightarrow> (error + order) \<times> state" where
  "mutation_createOrder tot chargeId its uid s =
     (case query_user_by_id s uid of
        None \<Rightarrow> (Inl PrismaError, s)
      | Some u \<Rightarrow>
          (let ord = \<lparr>o_id = nextId s, o_total = tot, o_charge = chargeId,
                      o_items = its, o_user = uid\<rparr>
           in (Inr ord, s\<lparr>orders := orders s @ [ord], nextId := Suc (nextId s)\<rparr>)))"

definition mutation_deleteManyCartItems :: "ident list \<Rightarrow> state \<Rightarrow> state" where
  "mutation_deleteManyCartItems ids s =
     s\<lparr>cartItems := filter (\<lambda>c. c_id c \<notin> set ids) (cartItems s)\<rparr>"


section \<open>Sessions and permissions\<close>

definition generateJWT :: "ident \<Rightarrow> state \<Rightarrow> state" where
  "generateJWT uid s =
     s\<lparr>res_cookies := res_cookies s @
         [\<lparr>ck_name = ''token'', ck_value = Jwt_sign uid, ck_httpOnly = True,
           ck_maxAge = 1000 * 60 * 60 * 24 * 365\<rparr>]\<rparr>"

text \<open>
  Modelled from the spec: \<^verbatim>\<open>hasPermission\<close> of \<^verbatim>\<open>../utils\<close> is not part of the
  sources. The spec's \<^verbatim>\<open>authorize(actor, requiredAnyOf)\<close>: the actor is authorized when
  the intersection of its permission set and \<^verbatim>\<open>requiredAnyOf\<close> is non-empty, and the
  call fails with \<^verbatim>\<open>Forbidden\<close> otherwise.
\<close>

definition hasPermission :: "string list \<Rightarrow> string list \<Rightarrow> error + unit" where
  "hasPermission permissions permissionsNeeded =
     (if list_ex (\<lambda>p. p \<in> set permissionsNeeded) permissions then Inr () else Inl Forbidden)"

section \<open>The mutations\<close>

definition createItem :: "itemInput \<Rightarrow> request \<Rightarrow> state \<Rightarrow> (error + item) \<times> state" where
  "createItem args req s =
     (case userId req of
        None \<Rightarrow> (Inl (Error ''You need to login''), s)
      | Some uid \<Rightarrow> mutation_createItem uid args s)"

definition updateItem ::
  "ident \<Rightarrow> itemUpdate \<Rightarrow> request \<Rightarrow> state \<Rightarrow> (error + item) \<times> state" where
  "updateItem iid updates req s = mutation_updateItem iid updates s"

definition deleteItem :: "ident \<Rightarrow> request \<Rightarrow> state \<Rightarrow> (error + item) \<times> state" where
  "deleteItem iid req s =
     (case query_item s iid of
        None \<Rightarrow> (Inl TypeError, s)
      | Some it \<Rightarrow>
          (let ownsItem = (Some (i_user it) = userId req)
           in case req_user req of
                None \<Rightarrow> (Inl TypeError, s)
              | Some a \<Rightarrow>
                  (let hasPermissions =
                         list_ex (\<lambda>permission. permission \<in> set [''ADMIN'', ''ITEMDELETE''])
                           (a_permissions a)
                   in if \<not> ownsItem \<and> \<not> hasPermissions
                      then (Inl (Error ''You don't have permissions''), s)
                      else mutation_deleteItem iid s)))"

text \<open>\<^verbatim>\<open>String.prototype.toLowerCase\<close> on the ASCII letters.\<close>

definition toLowerCase_char :: "char \<Rightarrow> char" where
  "toLowerCase_char c =
     (let n = (of_char c :: nat) in if 65 \<le> n \<and> n \<le> 90 then char_of (n + 32) else c)"

definition toLowerCase :: "string \<Rightarrow> string" where
  "toLowerCase str = map toLowerCase_char str"

definition signup :: "string \<Rightarrow> string \<Rightarrow> string \<Rightarrow> state \<Rightarrow> (error + user) \<times> state" where
  "signup name email password s =
     (let email' = toLowerCase email;
          password' = Bcrypt password 10
      in case mutation_createUser name email' password' [''USER''] s of
           (Inl e, s1) \<Rightarrow> (Inl e, s1)
         | (Inr u, s1) \<Rightarrow> (Inr u, generateJWT (u_id u) s1))"

definition requestReset :: "ext \<Rightarrow> string \<Rightarrow> request \<Rightarrow> state \<Rightarrow> (error + string) \<times> state" where
  "requestReset x email req s =
     (case query_user_by_email s email of
        None \<Rightarrow> (Inl (Error (''No such user found for email '' @ email)), s)
      | Some u \<Rightarrow>
          (let resetToken = randomBytes_hex x;
               resetTokenExpiry = date_now x + 3600000
           in case mutation_updateUser_by_email email
                     (\<lambda>r. r\<lparr>u_resetToken := Some resetToken,
                             u_resetTokenExpiry := Some resetTokenExpiry\<rparr>) s of
                (Inl e, s1) \<Rightarrow> (Inl e, s1)
              | (Inr res, s1) \<Rightarrow>
                  (let m = \<lparr>m_from = ''enrique.acuna@gmail.com'', m_to = u_email u,
                            m_subject = ''Your Passrword Reset'',
                            m_html = makeANiceEmail x
                              (''<a href='' @ [CHR 0x22] @ frontend_url x
                                @ ''/reset?resetToken='' @ resetToken @ [CHR 0x22]
                                @ ''>Click here to reset your password </a>'')\<rparr>
                   in case transport_sendMail x m of
                        Some e \<Rightarrow> (Inl (MailError e), s1)
                      | None \<Rightarrow>
                          (Inr ''Reset sent!'', s1\<lparr>mails_sent := mails_sent s1 @ [m]\<rparr>))))"

definition resetPassword ::
  "ext \<Rightarrow> string \<Rightarrow> string \<Rightarrow> string \<Rightarrow> request \<Rightarrow> state \<Rightarrow> (error + user) \<times> state" where
  "resetPassword x resetToken password confirmPassword req s =
     (if password \<noteq> confirmPassword then (Inl (Error ''Passwords don't match!''), s)
      else
        (case query_users_where_reset s resetToken (date_now x - 3600000) of
           [] \<Rightarrow> (Inl (Error ''This token is either invalid or expired!''), s)
         | u # _ \<Rightarrow>
             (let password' = Bcrypt password 10
              in case mutation_updateUser_by_email (u_email u)
                        (\<lambda>r. r\<lparr>u_password := password', u_resetToken := None,
                                u_resetTokenExpiry := None\<rparr>) s of
                   (Inl e, s1) \<Rightarrow> (Inl e, s1)
                 | (Inr updatedUser, s1) \<Rightarrow>
                     (Inr updatedUser, generateJWT (u_id updatedUser) s1))))"

definition updatePermissions ::
  "string list \<Rightarrow> ident \<Rightarrow> request \<Rightarrow> state \<Rightarrow> (error + user) \<times> state" where
  "updatePermissions permissions targetId req s =
     (case userId req of
        None \<Rightarrow> (Inl (Error ''You must be logged in!''), s)
      | Some uid \<Rightarrow>
          (case query_user_by_id s uid of
             None \<Rightarrow> (Inl TypeError, s)
           | Some currentUser \<Rightarrow>
               (case hasPermission (u_permissions currentUser) [''ADMIN'', ''PERMISSIONUPDATE''] of
                  Inl e \<Rightarrow> (Inl e, s)
                | Inr _ \<Rightarrow>
                    mutation_updateUser_by_id targetId
                      (\<lambda>r. r\<lparr>u_permissions := permissions\<rparr>) s)))"

definition addToCart :: "ident \<Rightarrow> request \<Rightarrow> state \<Rightarrow> (error + cartItem) \<times> state" where
  "addToCart iid req s =
     (case userId req of
        None \<Rightarrow> (Inl (Error ''You must be logged in!''), s)
      | Some uid \<Rightarrow>
          (case query_cartItems s uid iid of
             existingCartItem # _ \<Rightarrow>
               mutation_updateCartItem (c_id existingCartItem)
                 (c_quantity existingCartItem + 1) s
           | [] \<Rightarrow> mutation_createCartItem uid iid s))"

definition removeFromCart :: "ident \<Rightarrow> request \<Rightarrow> state \<Rightarrow> (error + cartItem) \<times> state" where
  "removeFromCart cid req s =
     (case query_cartItem s cid of
        None \<Rightarrow> (Inl (Error ''No CartItem Found!''), s)
      | Some cartItem \<Rightarrow>
          (if Some (c_user cartItem) \<noteq> userId req
           then (Inl (Error ''Operation unallowed''), s)
           else mutation_deleteCartItem cid s))"

subsection \<open>createOrder\<close>

text \<open>
  \<^verbatim>\<open>user.cart.reduce((tally, cartItem) => tally + cartItem.item.price * cartItem.quantity, 0)\<close>;
  reading \<^verbatim>\<open>price\<close> of a \<^verbatim>\<open>null\<close> item throws. The price and the quantity arrive as
  JavaScript numbers, and the product and the sum are JavaScript's.
\<close>

fun cart_reduce :: "js_number \<Rightarrow> cartLine list \<Rightarrow> error + js_number" where
  "cart_reduce tally [] = Inr tally"
| "cart_reduce tally (l # ls) =
     (case cl_item l of
        None \<Rightarrow> Inl TypeError
      | Some i \<Rightarrow>
          cart_reduce
            (js_add tally (js_mul (js_number_of (i_price i)) (js_number_of (cl_quantity l))))
            ls)"

definition orderItem_of :: "ident \<Rightarrow> cartLine \<Rightarrow> orderItem" where
  "orderItem_of uid l =
     \<lparr>oi_item = map_option (\<lambda>i. \<lparr>ic_title = i_title i, ic_price = i_price i,
                                  ic_description = i_description i, ic_image = i_image i,
                                  ic_largeImage = i_largeImage i\<rparr>) (cl_item l),
      oi_quantity = cl_quantity l, oi_user = uid\<rparr>"

text \<open>Steps 2 to 7 of \<^verbatim>\<open>createOrder\<close>: what runs once the user's cart has been read.\<close>

definition createOrder_checkout ::
  "ext \<Rightarrow> string \<Rightarrow> ident \<Rightarrow> cartLine list \<Rightarrow> state \<Rightarrow> (error + order) \<times> state" where
  "createOrder_checkout x token uid cart s =
     (case cart_reduce (Num 0) cart of
        Inl e \<Rightarrow> (Inl e, s)
      | Inr amount \<Rightarrow>
          (let rq = \<lparr>rq_amount = amount, rq_currency = ''USD'', rq_source = token\<rparr>;
               s1 = s\<lparr>stripe_calls := stripe_calls s @ [rq]\<rparr>
           in case stripe_charges_create x rq of
                Inl e \<Rightarrow> (Inl (StripeError e), s1)
              | Inr ch \<Rightarrow>
                  (let orderItems = map (orderItem_of uid) cart
                   in case mutation_createOrder (ch_amount ch) (ch_id ch) orderItems uid s1 of
                        (Inl e, s2) \<Rightarrow> (Inl e, s2)
                      | (Inr ord, s2) \<Rightarrow>
                          (let cartItemIds = map cl_id cart
                           in (Inr ord, mutation_deleteManyCartItems cartItemIds s2)))))"

definition createOrder :: "ext \<Rightarrow> string \<Rightarrow> request \<Rightarrow> state \<Rightarrow> (error + order) \<times> state" where
  "createOrder x token req s =
     (case userId req of
        None \<Rightarrow> (Inl (Error ''You must be signed in to complete this order.''), s)
      | Some uid \<Rightarrow>
          (case query_user_cart s uid of
             None \<Rightarrow> (Inl TypeError, s)
           | Some cart \<Rightarrow> createOrder_checkout x token uid cart s))"


section \<open>The queries\<close>

definition me :: "request \<Rightarrow> state \<Rightarrow> error + user option" where
  "me req s =
     (case userId req of
        None \<Rightarrow> Inr None
      | Some uid \<Rightarrow> Inr (query_user_by_id s uid))"

definition users_query :: "request \<Rightarrow> state \<Rightarrow> error + user list" where
  "users_query req s =
     (case userId req of
        None \<Rightarrow> Inl (Error ''You need to login!'')
      | Some uid \<Rightarrow>
          (case req_user req of
             None \<Rightarrow> Inl TypeError
           | Some a \<Rightarrow>
               (case hasPermission (a_permissions a) [''ADMIN'', ''PERMISSIONUPDATE''] of
                  Inl e \<Rightarrow> Inl e
                | Inr _ \<Rightarrow> Inr (users s))))"

definition order_query :: "ident \<Rightarrow> request \<Rightarrow> state \<Rightarrow> error + order" where
  "order_query oid req s =
     (case userId req of
        None \<Rightarrow> Inl (Error ''You need to login!'')
      | Some uid \<Rightarrow>
          (case query_order s oid of
             None \<Rightarrow> Inl TypeError
           | Some ord \<Rightarrow>
               (let ownsOrder = (o_user ord = uid)
                in case req_user req of
                     None \<Rightarrow> Inl TypeError
                   | Some a \<Rightarrow>
                       (let isAdmin = (''ADMIN'' \<in> set (a_permissions a))
                        in if \<not> ownsOrder \<and> \<not> isAdmin
                           then Inl (Error ''You don't have permission'')
                           else Inr ord))))"

definition orders_query :: "request \<Rightarrow> state \<Rightarrow> error + order list" where
  "orders_query req s =
     (case userId req of
        None \<Rightarrow> Inl (Error ''you must be signed in!'')
      | Some uid \<Rightarrow> Inr (query_orders s uid))"

section \<open>Cart snapshots and the cart invariant\<close>

text \<open>
  A cart snapshot as a list of (cart row identifier, item, quantity): the cart lines whose
  item is present.
\<close>

definition snapshot_line :: "ident \<times> item \<times> int \<Rightarrow> cartLine" where
  "snapshot_line = (\<lambda>(cid, it, q). \<lparr>cl_id = cid, cl_quantity = q, cl_item = Some it\<rparr>)"

text \<open>
  A snapshot whose prices, quantities, products and running totals (from the tally \<open>t\<close>
  on) are all safe integers.
\<close>

fun safe_tally :: "int \<Rightarrow> (ident \<times> item \<times> int) list \<Rightarrow> bool" where
  "safe_tally t [] = True"
| "safe_tally t ((cid, it, q) # snap) =
     (safe_integer (i_price it) \<and> safe_integer q \<and> safe_integer (i_price it * q)
      \<and> safe_integer (t + i_price it * q) \<and> safe_tally (t + i_price it * q) snap)"

text \<open>
  The invariant of the cart: no two rows for the same (user, item) pair.
\<close>

definition cart_unique :: "state \<Rightarrow> bool" where
  "cart_unique s = distinct (map (\<lambda>c. (c_user c, c_item c)) (cartItems s))"

section \<open>A sample store\<close>

text \<open>
  A store with one user, two items and that user's cart of two rows; a gateway that
  captures one minor unit less than it was asked for; a signed-in request of that user
  and a request without a session; the store after Ann has requested a reset at time 0.
\<close>

definition ex_user :: user where
  "ex_user = \<lparr>u_id = 1, u_name = ''Ann'', u_email = ''ann@example.com'',
     u_password = Bcrypt ''secret'' 10, u_permissions = [''USER''],
     u_resetToken = None, u_resetTokenExpiry = None\<rparr>"

definition ex_item1 :: item where
  "ex_item1 = \<lparr>i_id = 10, i_title = ''Shoes'', i_description = ''Red'', i_image = None,
     i_largeImage = None, i_price = 1000, i_user = 1\<rparr>"

definition ex_item2 :: item where
  "ex_item2 = \<lparr>i_id = 11, i_title = ''Hat'', i_description = ''Blue'', i_image = None,
     i_largeImage = None, i_price = 500, i_user = 2\<rparr>"

definition ex_state :: state where
  "ex_state = \<lparr>users = [ex_user], items = [ex_item1, ex_item2],
     cartItems = [\<lparr>c_id = 100, c_quantity = 2, c_user = 1, c_item = 10\<rparr>,
                  \<lparr>c_id = 101, c_quantity = 1, c_user = 1, c_item = 11\<rparr>],
     orders = [], nextId = 200, stripe_calls = [], mails_sent = [], res_cookies = []\<rparr>"

definition ex_ext :: ext where
  "ex_ext = \<lparr>date_now = 0, randomBytes_hex = ''0a1b2c'',
     stripe_charges_create =
       (\<lambda>rq. case rq_amount rq of
               Num n \<Rightarrow> Inr \<lparr>ch_id = ''ch_1'', ch_amount = n - 1\<rparr>
             | NonFinite \<Rightarrow> Inl ''invalid_integer''),
     transport_sendMail = (\<lambda>m. None), makeANiceEmail = (\<lambda>t. t),
     frontend_url = ''http://localhost:7777''\<rparr>"

definition ex_req :: request where
  "ex_req = \<lparr>userId = Some 1, req_user = Some \<lparr>a_id = 1, a_permissions = [''USER'']\<rparr>\<rparr>"

definition ex_anon :: request where
  "ex_anon = \<lparr>userId = None, req_user = None\<rparr>"

definition ex_reset_state :: state where
  "ex_reset_state = snd (requestReset ex_ext ''ann@example.com'' ex_anon ex_state)"

text \<open>
  A store in which Ann's cart holds 4194305 pieces of an item priced 2147483647: the
  product is 9007201398030335, one above a multiple of two beyond \<open>2 ^ 53\<close>.
\<close>

definition ex_big_item :: item where
  "ex_big_item = \<lparr>i_id = 12, i_title = ''Yacht'', i_description = ''White'', i_image = None,
     i_largeImage = None, i_price = 2147483647, i_user = 2\<rparr>"

definition ex_big_state :: state where
  "ex_big_state = ex_state\<lparr>items := [ex_big_item],
     cartItems := [\<lparr>c_id = 100, c_quantity = 4194305, c_user = 1, c_item = 12\<rparr>]\<rparr>"

text \<open>
  A store with a second user, Bob, whose cart row for item 10 comes first; Ann's row for
  item 10 comes last, after her row for item 11.
\<close>

definition ex_user2 :: user where
  "ex_user2 = \<lparr>u_id = 2, u_name = ''Bob'', u_email = ''bob@example.com'',
     u_password = Bcrypt ''hidden'' 10, u_permissions = [''USER''],
     u_resetToken = None, u_resetTokenExpiry = None\<rparr>"

definition ex_cart_state :: state where
  "ex_cart_state = ex_state\<lparr>users := [ex_user, ex_user2],
     cartItems := [\<lparr>c_id = 100, c_quantity = 2, c_user = 2, c_item = 10\<rparr>,
                   \<lparr>c_id = 101, c_quantity = 1, c_user = 1, c_item = 11\<rparr>,
                   \<lparr>c_id = 102, c_quantity = 5, c_user = 1, c_item = 10\<rparr>]\<rparr>"

section \<open>Unfolding the store and the sample\<close>

lemmas ex_defs = ex_user_def ex_item1_def ex_item2_def ex_state_def ex_ext_def ex_req_def

lemmas js_eval = js_number_of_def js_round_nat_def bitlen_nat.simps Let_def

lemmas store_defs = query_user_by_id_def query_user_by_email_def query_item_def
  query_cartItem_def query_cartItems_def query_user_cart_def query_users_where_reset_def
  query_order_def query_orders_def mutation_createOrder_def mutation_deleteManyCartItems_def
  mutation_createItem_def mutation_updateItem_def mutation_deleteItem_def
  mutation_createUser_def mutation_updateUser_by_email_def mutation_updateUser_by_id_def
  mutation_createCartItem_def mutation_updateCartItem_def mutation_deleteCartItem_def
  cartItem_default_quantity_def apply_itemUpdate_def generateJWT_def

section \<open>Checkout\<close>

lemma bitlen_nat_le: "m < 2 ^ k \<Longrightarrow> bitlen_nat m \<le> k"
proof (induction k arbitrary: m)
  case 0
  then show ?case by (simp add: bitlen_nat.simps)
next
  case (Suc k)
  show ?case
  proof (cases "m = 0")
    case True
    then show ?thesis by (simp add: bitlen_nat.simps)
  next
    case False
    from Suc.prems have "m div 2 < 2 ^ k" by simp
    then have "bitlen_nat (m div 2) \<le> k" by (rule Suc.IH)
    with False show ?thesis by (subst bitlen_nat.simps) simp
  qed
qed

lemma js_round_nat_safe: "m < 2 ^ 53 \<Longrightarrow> js_round_nat m = m"
  using bitlen_nat_le [of m 53] by (simp add: js_round_nat_def)

text \<open>A safe integer is a double: JavaScript holds it exactly.\<close>

lemma js_number_of_safe: "safe_integer n \<Longrightarrow> js_number_of n = Num n"
proof -
  assume s: "safe_integer n"
  then have m: "nat \<bar>n\<bar> < 2 ^ 53"
    by (simp add: safe_integer_def nat_less_iff)
  have "(2::nat) ^ 53 < 2 ^ 1024"
    by (rule power_strict_increasing) simp_all
  with m have "\<not> 2 ^ 1024 \<le> nat \<bar>n\<bar>" by linarith
  moreover have "sgn n * int (nat \<bar>n\<bar>) = n"
    by (simp add: mult_sgn_abs)
  ultimately show ?thesis
    using m by (simp add: js_number_of_def js_round_nat_safe)
qed

lemma cart_reduce_snapshot_returns:
  "\<exists>amount. cart_reduce tally (map snapshot_line snap) = Inr amount"
  by (induction snap arbitrary: tally) (auto simp: snapshot_line_def)

lemma cart_reduce_safe_snapshot:
  "safe_tally t snap \<Longrightarrow>
   cart_reduce (Num t) (map snapshot_line snap)
     = Inr (Num (t + (\<Sum>(cid, it, q)\<leftarrow>snap. i_price it * q)))"
proof (induction snap arbitrary: t)
  case Nil
  then show ?case by simp
next
  case (Cons l snap)
  obtain cid it q where l: "l = (cid, it, q)"
    by (cases l)
  from Cons.prems l have safe: "safe_integer (i_price it)" "safe_integer q"
    "safe_integer (i_price it * q)" "safe_integer (t + i_price it * q)"
    and rest: "safe_tally (t + i_price it * q) snap"
    by simp_all
  from safe have "js_add (Num t) (js_mul (js_number_of (i_price it)) (js_number_of q))
      = Num (t + i_price it * q)"
    by (simp add: js_number_of_safe)
  with Cons.IH [OF rest] l show ?case
    by (simp add: snapshot_line_def add.assoc)
qed

text \<open>
  C1, as it is stated, fails: with 4194305 pieces of an item priced 2147483647 in the
  cart, the sum of \<open>price * quantity\<close> is 9007201398030335, and the amount sent to the
  gateway is 9007201398030336, the double nearest to it.
\<close>

theorem createOrder_amount_is_rounded_counterexample:
  "query_user_cart ex_big_state 1 = Some (map snapshot_line [(100, ex_big_item, 4194305)])
   \<and> i_price ex_big_item * 4194305 = 9007201398030335
   \<and> stripe_calls (snd (createOrder ex_ext ''tok_visa'' ex_req ex_big_state))
       = [\<lparr>rq_amount = Num 9007201398030336, rq_currency = ''USD'',
           rq_source = ''tok_visa''\<rparr>]"
proof -
  have a: "js_number_of 2147483647 = Num 2147483647"
    and b: "js_number_of 4194305 = Num 4194305"
    by (simp_all add: js_number_of_safe safe_integer_def)
  have c: "js_number_of 9007201398030335 = Num 9007201398030336"
    and d: "js_number_of 9007201398030336 = Num 9007201398030336"
    by (simp_all add: js_eval)
  have q: "query_user_cart ex_big_state 1
             = Some (map snapshot_line [(100, ex_big_item, 4194305)])"
    by (simp add: query_user_cart_def query_user_by_id_def query_item_def snapshot_line_def
        ex_big_state_def ex_big_item_def ex_state_def ex_user_def)
  have r: "cart_reduce (Num 0) (map snapshot_line [(100, ex_big_item, 4194305)])
             = Inr (Num 9007201398030336)"
    by (simp add: snapshot_line_def ex_big_item_def a b c d)
  have u: "userId ex_req = Some 1"
    by (simp add: ex_req_def)
  have e: "createOrder ex_ext ''tok_visa'' ex_req ex_big_state
             = createOrder_checkout ex_ext ''tok_visa'' 1
                 (map snapshot_line [(100, ex_big_item, 4194305)]) ex_big_state"
    using q u by (simp add: createOrder_def)
  have n: "stripe_calls ex_big_state = []"
    by (simp add: ex_big_state_def ex_state_def)
  have "stripe_calls (snd (createOrder_checkout ex_ext ''tok_visa'' 1
                 (map snapshot_line [(100, ex_big_item, 4194305)]) ex_big_state))
       = stripe_calls ex_big_state
           @ [\<lparr>rq_amount = Num 9007201398030336, rq_currency = ''USD'',
               rq_source = ''tok_visa''\<rparr>]"
    unfolding createOrder_checkout_def r
    by (simp add: Let_def ex_ext_def mutation_createOrder_def
        mutation_deleteManyCartItems_def split: option.splits)
  with q e n show ?thesis
    by (simp add: ex_big_item_def)
qed

text \<open>
  C1, amended. For a signed-in user whose cart snapshot is the list of (row, item,
  quantity) \<open>snap\<close>, \<^verbatim>\<open>createOrder\<close> sends the gateway exactly one request: the amount
  is what JavaScript's reduce makes of the snapshot, the currency is \<^verbatim>\<open>USD\<close> and the
  source is the payment token. When the prices, the quantities, the products and the
  running totals of the snapshot are safe integers, that amount is the sum of
  \<open>price * quantity\<close> over the snapshot. When the gateway answers with a charge, the order
  that is returned and stored has the charge's amount as its total and the charge's
  identifier, whatever the local sum was.
\<close>

theorem createOrder_charges_safe_cart_total:
  assumes "userId req = Some uid"
    and "query_user_cart s uid = Some (map snapshot_line snap)"
  shows "\<exists>amount. cart_reduce (Num 0) (map snapshot_line snap) = Inr amount
      \<and> (safe_tally 0 snap \<longrightarrow> amount = Num (\<Sum>(cid, it, q)\<leftarrow>snap. i_price it * q))
      \<and> (let rq = \<lparr>rq_amount = amount, rq_currency = ''USD'', rq_source = token\<rparr>;
              res = createOrder x token req s
          in stripe_calls (snd res) = stripe_calls s @ [rq] \<and>
             (\<forall>ch. stripe_charges_create x rq = Inr ch \<longrightarrow>
                (\<exists>ord. fst res = Inr ord \<and> o_total ord = ch_amount ch
                       \<and> o_charge ord = ch_id ch \<and> ord \<in> set (orders (snd res)))))"
proof -
  from assms(2) obtain u where u: "query_user_by_id s uid = Some u"
    by (auto simp: query_user_cart_def split: option.splits)
  obtain amount where a: "cart_reduce (Num 0) (map snapshot_line snap) = Inr amount"
    using cart_reduce_snapshot_returns by blast
  have safe: "safe_tally 0 snap \<longrightarrow> amount = Num (\<Sum>(cid, it, q)\<leftarrow>snap. i_price it * q)"
    using a cart_reduce_safe_snapshot [of 0 snap] by auto
  have "let rq = \<lparr>rq_amount = amount, rq_currency = ''USD'', rq_source = token\<rparr>;
            res = createOrder x token req s
        in stripe_calls (snd res) = stripe_calls s @ [rq] \<and>
           (\<forall>ch. stripe_charges_create x rq = Inr ch \<longrightarrow>
              (\<exists>ord. fst res = Inr ord \<and> o_total ord = ch_amount ch
                     \<and> o_charge ord = ch_id ch \<and> ord \<in> set (orders (snd res))))"
    using assms u a
    by (auto simp: createOrder_def createOrder_checkout_def Let_def
        mutation_createOrder_def mutation_deleteManyCartItems_def query_user_by_id_def
        split: sum.splits option.splits prod.splits)
  with a safe show ?thesis by blast
qed

theorem createOrder_charges_safe_cart_total_witness:
  "safe_tally 0 [(100, ex_item1, 2), (101, ex_item2, 1)]
   \<and> stripe_calls (snd (createOrder ex_ext ''tok_visa'' ex_req ex_state))
     = [\<lparr>rq_amount = Num 2500, rq_currency = ''USD'', rq_source = ''tok_visa''\<rparr>]
   \<and> (\<exists>ord. fst (createOrder ex_ext ''tok_visa'' ex_req ex_state) = Inr ord
            \<and> o_total ord = 2499 \<and> o_charge ord = ''ch_1'')"
proof -
  have h1: "userId ex_req = Some 1"
    by (simp add: ex_req_def)
  have h2: "query_user_cart ex_state 1
              = Some (map snapshot_line [(100, ex_item1, 2), (101, ex_item2, 1)])"
    by (simp add: ex_defs query_user_cart_def query_user_by_id_def query_item_def
        snapshot_line_def)
  have h3: "safe_tally 0 [(100, ex_item1, 2), (101, ex_item2, 1)]"
    by (simp add: safe_integer_def ex_item1_def ex_item2_def)
  show ?thesis
    using createOrder_charges_safe_cart_total [OF h1 h2, of "''tok_visa''" ex_ext] h3
    by (auto simp: Let_def ex_ext_def ex_item1_def ex_item2_def ex_state_def)
qed

text \<open>
  C2. When the cart has been read and the gateway rejects the charge, \<^verbatim>\<open>createOrder\<close>
  fails with the gateway's error, and the orders, the cart rows, the users and the items
  of the store are what they were.
\<close>

theorem createOrder_gateway_failure_aborts:
  assumes "userId req = Some uid"
    and "query_user_cart s uid = Some cart"
    and "cart_reduce (Num 0) cart = Inr amount"
    and "stripe_charges_create x
           \<lparr>rq_amount = amount, rq_currency = ''USD'', rq_source = token\<rparr> = Inl e"
  shows "fst (createOrder x token req s) = Inl (StripeError e)
       \<and> orders (snd (createOrder x token req s)) = orders s
       \<and> cartItems (snd (createOrder x token req s)) = cartItems s
       \<and> users (snd (createOrder x token req s)) = users s
       \<and> items (snd (createOrder x token req s)) = items s"
  using assms by (simp add: createOrder_def createOrder_checkout_def Let_def)

theorem createOrder_gateway_failure_aborts_witness:
  "fst (createOrder (ex_ext\<lparr>stripe_charges_create := (\<lambda>rq. Inl ''card_declined'')\<rparr>)
          ''tok_visa'' ex_req ex_state) = Inl (StripeError ''card_declined'')
   \<and> orders (snd (createOrder (ex_ext\<lparr>stripe_charges_create := (\<lambda>rq. Inl ''card_declined'')\<rparr>)
          ''tok_visa'' ex_req ex_state)) = []
   \<and> map c_id (cartItems (snd (createOrder (ex_ext\<lparr>stripe_charges_create := (\<lambda>rq. Inl ''card_declined'')\<rparr>)
          ''tok_visa'' ex_req ex_state))) = [100, 101]"
proof -
  have h1: "userId ex_req = Some 1"
    by (simp add: ex_req_def)
  have h2: "query_user_cart ex_state 1
              = Some (map snapshot_line [(100, ex_item1, 2), (101, ex_item2, 1)])"
    by (simp add: ex_defs query_user_cart_def query_user_by_id_def query_item_def
        snapshot_line_def)
  have h3: "cart_reduce (Num 0) (map snapshot_line [(100, ex_item1, 2), (101, ex_item2, 1)])
              = Inr (Num 2500)"
    by (simp add: snapshot_line_def ex_item1_def ex_item2_def js_number_of_safe
        safe_integer_def)
  have h4: "stripe_charges_create (ex_ext\<lparr>stripe_charges_create := (\<lambda>rq. Inl ''card_declined'')\<rparr>)
           \<lparr>rq_amount = Num 2500, rq_currency = ''USD'', rq_source = ''tok_visa''\<rparr>
             = Inl ''card_declined''"
    by simp
  show ?thesis
    using createOrder_gateway_failure_aborts [OF h1 h2 h3 h4]
    by (simp add: ex_state_def)
qed

text \<open>
  C9. A successful checkout deletes the cart rows whose identifier is in the snapshot
  and no other row. The first part is about the steps after the snapshot, run on any
  store \<open>w\<close> (the store as it is by then, whatever was added to it since the snapshot):
  the cart rows left are those of \<open>w\<close> whose identifier is not one of the snapshot's.
  The second part is the whole resolver run on \<open>s\<close>: the snapshot is the cart of the user
  in \<open>s\<close>, its identifiers are those of the user's cart rows, and the rows left are those
  of \<open>s\<close> with another identifier.
\<close>

theorem createOrder_deletes_snapshot_rows:
  "(createOrder_checkout x token uid cart w = (Inr ord_w, w') \<longrightarrow>
      cartItems w' = filter (\<lambda>c. c_id c \<notin> set (map cl_id cart)) (cartItems w))
   \<and> (userId req = Some uid \<and> createOrder x token req s = (Inr ord_s, s') \<longrightarrow>
        (\<exists>cart. query_user_cart s uid = Some cart
           \<and> map cl_id cart = map c_id (filter (\<lambda>c. c_user c = uid) (cartItems s))
           \<and> createOrder x token req s = createOrder_checkout x token uid cart s
           \<and> cartItems s' = filter (\<lambda>c. c_id c \<notin> set (map cl_id cart)) (cartItems s)))"
proof -
  have a: "cartItems w' = filter (\<lambda>c. c_id c \<notin> set (map cl_id cart)) (cartItems w)"
    if "createOrder_checkout x token uid cart w = (Inr ord_w, w')" for w w' cart ord_w
    using that
    by (auto simp: createOrder_checkout_def Let_def mutation_createOrder_def
        mutation_deleteManyCartItems_def split: sum.splits option.splits prod.splits)
  have b: "\<exists>cart. query_user_cart s uid = Some cart
           \<and> map cl_id cart = map c_id (filter (\<lambda>c. c_user c = uid) (cartItems s))
           \<and> createOrder x token req s = createOrder_checkout x token uid cart s
           \<and> cartItems s' = filter (\<lambda>c. c_id c \<notin> set (map cl_id cart)) (cartItems s)"
    if u: "userId req = Some uid" and r: "createOrder x token req s = (Inr ord_s, s')"
  proof -
    from u r obtain cart where c: "query_user_cart s uid = Some cart"
      by (auto simp: createOrder_def split: option.splits)
    with u r have e: "createOrder x token req s = createOrder_checkout x token uid cart s"
      by (simp add: createOrder_def)
    from c have m: "map cl_id cart = map c_id (filter (\<lambda>c. c_user c = uid) (cartItems s))"
      by (auto simp: query_user_cart_def comp_def split: option.splits)
    from e r have "createOrder_checkout x token uid cart s = (Inr ord_s, s')"
      by simp
    then have f: "cartItems s' = filter (\<lambda>c. c_id c \<notin> set (map cl_id cart)) (cartItems s)"
      by (rule a)
    from c m e f show ?thesis by blast
  qed
  from a b show ?thesis by blast
qed


theorem createOrder_deletes_snapshot_rows_witness:
  "cartItems (snd (createOrder ex_ext ''tok_visa'' ex_req ex_state)) = []
   \<and> cartItems (snd (createOrder_checkout ex_ext ''tok_visa'' 1
          (map snapshot_line [(100, ex_item1, 2), (101, ex_item2, 1)])
          (ex_state\<lparr>cartItems := cartItems ex_state
             @ [\<lparr>c_id = 102, c_quantity = 1, c_user = 1, c_item = 10\<rparr>]\<rparr>)))
       = [\<lparr>c_id = 102, c_quantity = 1, c_user = 1, c_item = 10\<rparr>]"
proof -
  obtain ord_w s' where r: "createOrder ex_ext ''tok_visa'' ex_req ex_state = (Inr ord_w, s')"
    by (simp add: createOrder_def createOrder_checkout_def ex_defs query_user_cart_def
        query_user_by_id_def query_item_def mutation_createOrder_def Let_def
        js_number_of_safe safe_integer_def)
  obtain ord_s w' where r2: "createOrder_checkout ex_ext ''tok_visa'' 1
          (map snapshot_line [(100, ex_item1, 2), (101, ex_item2, 1)])
          (ex_state\<lparr>cartItems := cartItems ex_state
             @ [\<lparr>c_id = 102, c_quantity = 1, c_user = 1, c_item = 10\<rparr>]\<rparr>) = (Inr ord_s, w')"
    by (simp add: createOrder_checkout_def ex_defs snapshot_line_def
        query_user_by_id_def mutation_createOrder_def Let_def
        js_number_of_safe safe_integer_def)
  have h1: "userId ex_req = Some 1"
    by (simp add: ex_req_def)
  show ?thesis
    using createOrder_deletes_snapshot_rows [where x = ex_ext and token = "''tok_visa''"
        and uid = 1 and cart = "map snapshot_line [(100, ex_item1, 2), (101, ex_item2, 1)]"
        and w = "ex_state\<lparr>cartItems := cartItems ex_state
             @ [\<lparr>c_id = 102, c_quantity = 1, c_user = 1, c_item = 10\<rparr>]\<rparr>"
        and ord_w = ord_s and w' = w' and req = ex_req and s = ex_state and ord_s = ord_w
        and s' = s'] r r2 h1
    by (auto simp: snapshot_line_def ex_state_def)
qed

section \<open>The cart\<close>

text \<open>The invariant says that a user has at most one row for an item.\<close>

lemma distinct_map_filter_le1:
  "distinct (map f xs) = (\<forall>y. length (filter (\<lambda>x. f x = y) xs) \<le> 1)"
proof (induction xs)
  case Nil
  then show ?case by simp
next
  case (Cons a xs)
  have *: "(f a \<notin> f ` set xs) = (filter (\<lambda>x. f x = f a) xs = [])"
    by (auto simp: filter_empty_conv image_iff)
  show ?case
  proof
    assume d: "distinct (map f (a # xs))"
    with Cons have ih: "\<forall>y. length (filter (\<lambda>x. f x = y) xs) \<le> 1" by simp
    from d * have "filter (\<lambda>x. f x = f a) xs = []" by simp
    with ih show "\<forall>y. length (filter (\<lambda>x. f x = y) (a # xs)) \<le> 1" by auto
  next
    assume h: "\<forall>y. length (filter (\<lambda>x. f x = y) (a # xs)) \<le> 1"
    then have "length (filter (\<lambda>x. f x = f a) (a # xs)) \<le> 1" by blast
    then have e: "filter (\<lambda>x. f x = f a) xs = []" by simp
    have "\<forall>y. length (filter (\<lambda>x. f x = y) xs) \<le> 1"
    proof
      fix y
      from h have "length (filter (\<lambda>x. f x = y) (a # xs)) \<le> 1" by blast
      then show "length (filter (\<lambda>x. f x = y) xs) \<le> 1" by (simp split: if_splits)
    qed
    with Cons have "distinct (map f xs)" by simp
    with e * show "distinct (map f (a # xs))" by simp
  qed
qed

lemma cart_unique_iff:
  "cart_unique s
     = (\<forall>u i. length (filter (\<lambda>c. c_user c = u \<and> c_item c = i) (cartItems s)) \<le> 1)"
proof -
  have "(\<lambda>c. (c_user c, c_item c) = (u, i)) = (\<lambda>c. c_user c = u \<and> c_item c = i)" for u i
    by auto
  then show ?thesis
    by (simp add: cart_unique_def distinct_map_filter_le1)
qed

lemma updateCartItem_pairs:
  "map (\<lambda>c. (c_user c, c_item c)) (cartItems (snd (mutation_updateCartItem cid q s)))
     = map (\<lambda>c. (c_user c, c_item c)) (cartItems s)"
  by (auto simp: mutation_updateCartItem_def split: option.splits)

lemma createCartItem_cases:
  "mutation_createCartItem u i s = (Inl PrismaError, s) \<or>
   mutation_createCartItem u i s =
     (Inr \<lparr>c_id = nextId s, c_quantity = 1, c_user = u, c_item = i\<rparr>,
      s\<lparr>cartItems := cartItems s @ [\<lparr>c_id = nextId s, c_quantity = 1, c_user = u, c_item = i\<rparr>],
        nextId := Suc (nextId s)\<rparr>)"
  by (auto simp: mutation_createCartItem_def cartItem_default_quantity_def Let_def
      split: option.splits)

lemma addToCart_unique:
  assumes "cart_unique s"
  shows "cart_unique (snd (addToCart i req s))"
proof (cases "userId req")
  case None
  with assms show ?thesis by (simp add: addToCart_def)
next
  case (Some u)
  show ?thesis
  proof (cases "query_cartItems s u i")
    case Nil
    then have notin: "(u, i) \<notin> set (map (\<lambda>c. (c_user c, c_item c)) (cartItems s))"
      by (auto simp: query_cartItems_def filter_empty_conv)
    from Some Nil have e: "addToCart i req s = mutation_createCartItem u i s"
      by (simp add: addToCart_def)
    from createCartItem_cases [of u i s] show ?thesis
    proof
      assume "mutation_createCartItem u i s = (Inl PrismaError, s)"
      with e assms show ?thesis by simp
    next
      assume "mutation_createCartItem u i s =
        (Inr \<lparr>c_id = nextId s, c_quantity = 1, c_user = u, c_item = i\<rparr>,
         s\<lparr>cartItems := cartItems s @ [\<lparr>c_id = nextId s, c_quantity = 1, c_user = u, c_item = i\<rparr>],
           nextId := Suc (nextId s)\<rparr>)"
      with e assms notin show ?thesis by (simp add: cart_unique_def)
    qed
  next
    case (Cons c cs)
    with Some have "addToCart i req s = mutation_updateCartItem (c_id c) (c_quantity c + 1) s"
      by (simp add: addToCart_def)
    with assms show ?thesis
      by (simp add: cart_unique_def updateCartItem_pairs)
  qed
qed

text \<open>With distinct identifiers, the update by identifier touches the one row that has it.\<close>

lemma map_update_by_id:
  assumes "distinct (map c_id xs)" and "c \<in> set xs"
  shows "map (\<lambda>r. if c_id r = c_id c then g r else r) xs
           = map (\<lambda>r. if r = c then g r else r) xs"
proof (rule map_cong [OF refl])
  fix r
  assume "r \<in> set xs"
  with assms have "(c_id r = c_id c) = (r = c)"
    by (auto simp: distinct_map dest: inj_onD)
  then show "(if c_id r = c_id c then g r else r) = (if r = c then g r else r)"
    by simp
qed

text \<open>
  C3. The rows for a pair (\<open>u\<close>, \<open>i\<close>) are the rows of the cart table whose user is \<open>u\<close>
  and whose item is \<open>i\<close>. For a signed-in user \<open>u\<close> and an item \<open>i\<close>:
  \<^verbatim>\<open>addToCart\<close> keeps the invariant that no two cart rows have the same (user, item)
  pair. When there are rows for (\<open>u\<close>, \<open>i\<close>), the first being \<open>c\<close>, the call succeeds with
  a row of quantity one more than that of \<open>c\<close>, the table is the old one with that quantity
  written to the rows that have the identifier of \<open>c\<close>, and, the identifiers of the table
  being distinct, \<open>c\<close> is the only row that changes. When there is no row for
  (\<open>u\<close>, \<open>i\<close>) and the user and the item are in the store, the call appends one row with
  quantity 1 and changes no other, and a second call right after it succeeds and leaves
  exactly one row for (\<open>u\<close>, \<open>i\<close>), with quantity 2, the table being one row longer
  than at the start; the store's next identifier being new to the table, the table is
  then the old one with that one row appended.
\<close>

theorem addToCart_one_row_per_pair:
  assumes "userId req = Some u"
  shows "(cart_unique s \<longrightarrow> cart_unique (snd (addToCart i req s)))
    \<and> (\<forall>c cs. filter (\<lambda>r. c_user r = u \<and> c_item r = i) (cartItems s) = c # cs \<longrightarrow>
          (\<exists>r. fst (addToCart i req s) = Inr r \<and> c_quantity r = c_quantity c + 1)
          \<and> cartItems (snd (addToCart i req s))
              = map (\<lambda>r. if c_id r = c_id c then r\<lparr>c_quantity := c_quantity c + 1\<rparr> else r)
                  (cartItems s)
          \<and> (distinct (map c_id (cartItems s)) \<longrightarrow>
                cartItems (snd (addToCart i req s))
                  = map (\<lambda>r. if r = c then r\<lparr>c_quantity := c_quantity r + 1\<rparr> else r)
                      (cartItems s)))
    \<and> (filter (\<lambda>r. c_user r = u \<and> c_item r = i) (cartItems s) = []
         \<and> u \<in> u_id ` set (users s) \<and> i \<in> i_id ` set (items s) \<longrightarrow>
         (let new = \<lparr>c_id = nextId s, c_quantity = 1, c_user = u, c_item = i\<rparr>;
              r1 = addToCart i req s;
              r2 = addToCart i req (snd r1)
          in fst r1 = Inr new
           \<and> cartItems (snd r1) = cartItems s @ [new]
           \<and> (\<exists>c2. fst r2 = Inr c2 \<and> c_quantity c2 = 2)
           \<and> filter (\<lambda>r. c_user r = u \<and> c_item r = i) (cartItems (snd r2))
               = [new\<lparr>c_quantity := 2\<rparr>]
           \<and> length (cartItems (snd r2)) = length (cartItems s) + 1
           \<and> (nextId s \<notin> c_id ` set (cartItems s) \<longrightarrow>
                cartItems (snd r2) = cartItems s @ [new\<lparr>c_quantity := 2\<rparr>])))"
  (is "?A \<and> ?B \<and> ?C")
proof (intro conjI)
  show ?A by (simp add: addToCart_unique)
next
  show ?B
  proof (intro allI impI)
    fix c cs
    assume q: "filter (\<lambda>r. c_user r = u \<and> c_item r = i) (cartItems s) = c # cs"
    then have "c \<in> set (filter (\<lambda>r. c_user r = u \<and> c_item r = i) (cartItems s))"
      by simp
    then have m: "c \<in> set (cartItems s)"
      by simp
    then have "find (\<lambda>r. c_id r = c_id c) (cartItems s) \<noteq> None"
      by (auto simp: find_None_iff)
    then obtain r where r: "query_cartItem s (c_id c) = Some r"
      by (auto simp: query_cartItem_def)
    from q assms have e: "addToCart i req s = mutation_updateCartItem (c_id c) (c_quantity c + 1) s"
      by (simp add: addToCart_def query_cartItems_def)
    from r e have res: "\<exists>r. fst (addToCart i req s) = Inr r \<and> c_quantity r = c_quantity c + 1"
      and tab: "cartItems (snd (addToCart i req s))
              = map (\<lambda>r. if c_id r = c_id c then r\<lparr>c_quantity := c_quantity c + 1\<rparr> else r)
                  (cartItems s)"
      by (simp_all add: mutation_updateCartItem_def)
    have one: "cartItems (snd (addToCart i req s))
                  = map (\<lambda>r. if r = c then r\<lparr>c_quantity := c_quantity r + 1\<rparr> else r)
                      (cartItems s)"
      if d: "distinct (map c_id (cartItems s))"
    proof -
      have "map (\<lambda>r. if c_id r = c_id c then r\<lparr>c_quantity := c_quantity c + 1\<rparr> else r)
              (cartItems s)
            = map (\<lambda>r. if r = c then r\<lparr>c_quantity := c_quantity c + 1\<rparr> else r) (cartItems s)"
        using d m by (rule map_update_by_id)
      also have "\<dots> = map (\<lambda>r. if r = c then r\<lparr>c_quantity := c_quantity r + 1\<rparr> else r)
                         (cartItems s)"
        by (rule map_cong) auto
      finally show ?thesis using tab by simp
    qed
    from res tab one
    show "(\<exists>r. fst (addToCart i req s) = Inr r \<and> c_quantity r = c_quantity c + 1)
          \<and> cartItems (snd (addToCart i req s))
              = map (\<lambda>r. if c_id r = c_id c then r\<lparr>c_quantity := c_quantity c + 1\<rparr> else r)
                  (cartItems s)
          \<and> (distinct (map c_id (cartItems s)) \<longrightarrow>
                cartItems (snd (addToCart i req s))
                  = map (\<lambda>r. if r = c then r\<lparr>c_quantity := c_quantity r + 1\<rparr> else r)
                      (cartItems s))"
      by blast
  qed
next
  show ?C
  proof (intro impI)
    assume h: "filter (\<lambda>r. c_user r = u \<and> c_item r = i) (cartItems s) = []
         \<and> u \<in> u_id ` set (users s) \<and> i \<in> i_id ` set (items s)"
    then have hu: "query_user_by_id s u \<noteq> None" and hi: "query_item s i \<noteq> None"
      by (auto simp: query_user_by_id_def query_item_def find_None_iff)
    define new where "new = \<lparr>c_id = nextId s, c_quantity = 1, c_user = u, c_item = i\<rparr>"
    define s1 where "s1 = s\<lparr>cartItems := cartItems s @ [new], nextId := Suc (nextId s)\<rparr>"
    from h hu hi assms have r1: "addToCart i req s = (Inr new, s1)"
      by (auto simp: addToCart_def query_cartItems_def mutation_createCartItem_def
          cartItem_default_quantity_def new_def s1_def Let_def)
    from h have q1: "filter (\<lambda>r. c_user r = u \<and> c_item r = i) (cartItems s1) = [new]"
      by (simp add: s1_def new_def)
    have "new \<in> set (cartItems s1)" by (simp add: s1_def)
    then have "find (\<lambda>r. c_id r = c_id new) (cartItems s1) \<noteq> None"
      by (auto simp: find_None_iff)
    then obtain r where r: "query_cartItem s1 (c_id new) = Some r"
      by (auto simp: query_cartItem_def)
    from q1 assms have e2: "addToCart i req s1 = mutation_updateCartItem (c_id new) 2 s1"
      by (simp add: addToCart_def query_cartItems_def new_def)
    with r have r2: "addToCart i req s1
        = (Inr (r\<lparr>c_quantity := 2\<rparr>),
           s1\<lparr>cartItems := map (\<lambda>r. if c_id r = c_id new then r\<lparr>c_quantity := 2\<rparr> else r)
                               (cartItems s1)\<rparr>)"
      by (simp add: mutation_updateCartItem_def)
    have f: "filter (\<lambda>c. c_user c = u \<and> c_item c = i)
               (map (\<lambda>r. if c_id r = c_id new then r\<lparr>c_quantity := 2\<rparr> else r) xs)
             = map (\<lambda>r. if c_id r = c_id new then r\<lparr>c_quantity := 2\<rparr> else r)
                 (filter (\<lambda>c. c_user c = u \<and> c_item c = i) xs)" for xs
      by (induction xs) auto
    have q2: "filter (\<lambda>r. c_user r = u \<and> c_item r = i)
                (cartItems (snd (addToCart i req s1))) = [new\<lparr>c_quantity := 2\<rparr>]"
      using q1 by (simp add: r2 f)
    have fresh: "cartItems (snd (addToCart i req s1)) = cartItems s @ [new\<lparr>c_quantity := 2\<rparr>]"
      if n: "nextId s \<notin> c_id ` set (cartItems s)"
    proof -
      have same: "map (\<lambda>r. if c_id r = c_id new then r\<lparr>c_quantity := 2\<rparr> else r) (cartItems s)
              = cartItems s"
        using n by (intro map_idI) (force simp: new_def)
      have "cartItems (snd (addToCart i req s1))
              = map (\<lambda>r. if c_id r = c_id new then r\<lparr>c_quantity := 2\<rparr> else r) (cartItems s1)"
        by (simp add: r2)
      also have "\<dots> = map (\<lambda>r. if c_id r = c_id new then r\<lparr>c_quantity := 2\<rparr> else r)
                         (cartItems s) @ [new\<lparr>c_quantity := 2\<rparr>]"
        by (simp add: s1_def)
      finally show ?thesis
        by (simp only: same)
    qed
    show "let new = \<lparr>c_id = nextId s, c_quantity = 1, c_user = u, c_item = i\<rparr>;
              r1 = addToCart i req s;
              r2 = addToCart i req (snd r1)
          in fst r1 = Inr new
           \<and> cartItems (snd r1) = cartItems s @ [new]
           \<and> (\<exists>c2. fst r2 = Inr c2 \<and> c_quantity c2 = 2)
           \<and> filter (\<lambda>r. c_user r = u \<and> c_item r = i) (cartItems (snd r2))
               = [new\<lparr>c_quantity := 2\<rparr>]
           \<and> length (cartItems (snd r2)) = length (cartItems s) + 1
           \<and> (nextId s \<notin> c_id ` set (cartItems s) \<longrightarrow>
                cartItems (snd r2) = cartItems s @ [new\<lparr>c_quantity := 2\<rparr>])"
      unfolding Let_def new_def [symmetric]
      using q2 fresh by (simp add: r1 r2) (simp add: s1_def)
  qed
qed

text \<open>
  In the sample, Bob's row for item 10 comes first and Ann's row for it last: Ann's call
  raises her row from 5 to 6 and leaves Bob's at 2. Without her row, two calls append one
  row for her and raise it to 2, Bob's row and her row for item 11 staying as they were.
\<close>

theorem addToCart_one_row_per_pair_witness:
  "cart_unique ex_cart_state \<and> distinct (map c_id (cartItems ex_cart_state))
   \<and> cart_unique (snd (addToCart 10 ex_req ex_cart_state))
   \<and> cartItems (snd (addToCart 10 ex_req ex_cart_state))
       = [\<lparr>c_id = 100, c_quantity = 2, c_user = 2, c_item = 10\<rparr>,
          \<lparr>c_id = 101, c_quantity = 1, c_user = 1, c_item = 11\<rparr>,
          \<lparr>c_id = 102, c_quantity = 6, c_user = 1, c_item = 10\<rparr>]
   \<and> cartItems (snd (addToCart 10 ex_req (snd (addToCart 10 ex_req
        (ex_cart_state\<lparr>cartItems := butlast (cartItems ex_cart_state)\<rparr>)))))
       = [\<lparr>c_id = 100, c_quantity = 2, c_user = 2, c_item = 10\<rparr>,
          \<lparr>c_id = 101, c_quantity = 1, c_user = 1, c_item = 11\<rparr>,
          \<lparr>c_id = 200, c_quantity = 2, c_user = 1, c_item = 10\<rparr>]"
proof -
  have h: "userId ex_req = Some 1"
    by (simp add: ex_req_def)
  show ?thesis
    using addToCart_one_row_per_pair [OF h, of ex_cart_state 10]
      addToCart_one_row_per_pair [OF h,
        of "ex_cart_state\<lparr>cartItems := butlast (cartItems ex_cart_state)\<rparr>" 10]
    by (simp add: cart_unique_def addToCart_def mutation_updateCartItem_def
        mutation_createCartItem_def cartItem_default_quantity_def query_cartItems_def
        query_cartItem_def query_user_by_id_def query_item_def ex_defs ex_cart_state_def
        ex_user2_def Let_def)
qed

section \<open>Password reset\<close>

lemma ex_reset_state_users:
  "users ex_reset_state
     = [ex_user\<lparr>u_resetToken := Some ''0a1b2c'', u_resetTokenExpiry := Some 3600000\<rparr>]"
  by (simp add: ex_reset_state_def requestReset_def store_defs ex_defs Let_def)

text \<open>
  C5. When the password and its confirmation differ, \<^verbatim>\<open>resetPassword\<close> fails with
  "Passwords don't match!" on every store, and the store is returned as it was: nothing
  of it is read or written, so the reset token, its expiry and the password stay, and
  the token can still be used.
\<close>

theorem resetPassword_mismatch_reads_and_writes_nothing:
  assumes "password \<noteq> confirmPassword"
  shows "resetPassword x resetToken password confirmPassword req s
           = (Inl (Error ''Passwords don't match!''), s)"
  using assms by (simp add: resetPassword_def)

theorem resetPassword_mismatch_reads_and_writes_nothing_witness:
  "resetPassword ex_ext ''0a1b2c'' ''new'' ''gnu'' ex_anon ex_reset_state
     = (Inl (Error ''Passwords don't match!''), ex_reset_state)
   \<and> users ex_reset_state
       = [ex_user\<lparr>u_resetToken := Some ''0a1b2c'', u_resetTokenExpiry := Some 3600000\<rparr>]
   \<and> fst (resetPassword ex_ext ''0a1b2c'' ''new'' ''new'' ex_anon
            (snd (resetPassword ex_ext ''0a1b2c'' ''new'' ''gnu'' ex_anon ex_reset_state)))
       = Inr (ex_user\<lparr>u_password := Bcrypt ''new'' 10\<rparr>)"
proof -
  have h: "''new'' \<noteq> ''gnu''" by simp
  have r: "fst (resetPassword ex_ext ''0a1b2c'' ''new'' ''new'' ex_anon ex_reset_state)
       = Inr (ex_user\<lparr>u_password := Bcrypt ''new'' 10\<rparr>)"
    by (simp add: resetPassword_def store_defs ex_reset_state_users Let_def)
       (simp add: ex_defs)
  show ?thesis
    using resetPassword_mismatch_reads_and_writes_nothing
      [OF h, of ex_ext "''0a1b2c''" ex_anon ex_reset_state] r
    by (simp add: ex_reset_state_users)
qed

section \<open>Deleting an item\<close>

text \<open>
  C6. For a signed-in actor (\<^verbatim>\<open>ctx.request.userId\<close> and \<^verbatim>\<open>ctx.request.user\<close> present)
  and an item of the store: when the actor's identifier is the item owner's, or the
  actor holds one of \<^verbatim>\<open>ADMIN\<close> and \<^verbatim>\<open>ITEMDELETE\<close>, \<^verbatim>\<open>deleteItem\<close> deletes the item and
  returns it; otherwise it fails with "You don't have permissions" and the store is
  unchanged.
\<close>

theorem deleteItem_owner_or_permission:
  assumes "userId req = Some uid"
    and "req_user req = Some a"
    and "query_item s iid = Some it"
  shows "(i_user it = uid \<or> set (a_permissions a) \<inter> {''ADMIN'', ''ITEMDELETE''} \<noteq> {}
          \<longrightarrow> deleteItem iid req s
                = (Inr it, s\<lparr>items := filter (\<lambda>r. i_id r \<noteq> iid) (items s)\<rparr>))
       \<and> (\<not> (i_user it = uid \<or> set (a_permissions a) \<inter> {''ADMIN'', ''ITEMDELETE''} \<noteq> {})
          \<longrightarrow> deleteItem iid req s = (Inl (Error ''You don't have permissions''), s))"
proof -
  have p: "list_ex (\<lambda>permission. permission \<in> set [''ADMIN'', ''ITEMDELETE'']) (a_permissions a)
         = (set (a_permissions a) \<inter> {''ADMIN'', ''ITEMDELETE''} \<noteq> {})"
    by (auto simp: list_ex_iff)
  show ?thesis
    using assms
    by (simp add: deleteItem_def mutation_deleteItem_def Let_def p del: set_simps)
qed

theorem deleteItem_owner_or_permission_witness:
  "fst (deleteItem 10 ex_req ex_state) = Inr ex_item1
   \<and> items (snd (deleteItem 10 ex_req ex_state)) = [ex_item2]
   \<and> deleteItem 11 ex_req ex_state = (Inl (Error ''You don't have permissions''), ex_state)
   \<and> items (snd (deleteItem 11
        \<lparr>userId = Some 1, req_user = Some \<lparr>a_id = 1, a_permissions = [''USER'', ''ITEMDELETE'']\<rparr>\<rparr>
        ex_state)) = [ex_item1]"
proof -
  have h1: "userId ex_req = Some 1"
    and h2: "req_user ex_req = Some \<lparr>a_id = 1, a_permissions = [''USER'']\<rparr>"
    by (simp_all add: ex_req_def)
  have i1: "query_item ex_state 10 = Some ex_item1"
    and i2: "query_item ex_state 11 = Some ex_item2"
    by (simp_all add: query_item_def ex_state_def ex_item1_def ex_item2_def)
  have g1: "userId \<lparr>userId = Some 1, req_user = Some \<lparr>a_id = 1, a_permissions = [''USER'', ''ITEMDELETE'']\<rparr>\<rparr> = Some 1"
    and g2: "req_user \<lparr>userId = Some 1, req_user = Some \<lparr>a_id = 1, a_permissions = [''USER'', ''ITEMDELETE'']\<rparr>\<rparr>
       = Some \<lparr>a_id = 1, a_permissions = [''USER'', ''ITEMDELETE'']\<rparr>"
    by simp_all
  show ?thesis
    using deleteItem_owner_or_permission [OF h1 h2 i1]
      deleteItem_owner_or_permission [OF h1 h2 i2]
      deleteItem_owner_or_permission [OF g1 g2 i2]
    by (simp add: ex_state_def ex_item1_def ex_item2_def)
qed

section \<open>Queries without a session\<close>

text \<open>
  C10. Without a \<^verbatim>\<open>userId\<close> in the request, \<^verbatim>\<open>me\<close> returns \<^verbatim>\<open>null\<close> and raises
  nothing, while the other queries of \<^verbatim>\<open>Query.js\<close> that look at the session
  (\<^verbatim>\<open>users\<close>, \<^verbatim>\<open>order\<close>, \<^verbatim>\<open>orders\<close>) throw.
\<close>

theorem me_without_session_is_null:
  assumes "userId req = None"
  shows "me req s = Inr None
       \<and> users_query req s = Inl (Error ''You need to login!'')
       \<and> order_query oid req s = Inl (Error ''You need to login!'')
       \<and> orders_query req s = Inl (Error ''you must be signed in!'')"
  using assms by (simp add: me_def users_query_def order_query_def orders_query_def)

theorem me_without_session_is_null_witness:
  "me ex_anon ex_state = Inr None
   \<and> orders_query ex_anon ex_state = Inl (Error ''you must be signed in!'')
   \<and> me ex_req ex_state = Inr (Some ex_user)"
proof -
  have h: "userId ex_anon = None"
    by (simp add: ex_anon_def)
  show ?thesis
    using me_without_session_is_null [OF h, of ex_state]
    by (simp add: me_def ex_req_def query_user_by_id_def ex_state_def ex_user_def)
qed

section \<open>The reset token's lifetime\<close>

text \<open>
  What \<^verbatim>\<open>resetPassword\<close> accepts: with matching passwords it succeeds exactly when some
  user holds the token with a stored expiry of at least \<^verbatim>\<open>Date.now() - 3600000\<close>.
\<close>

lemma resetPassword_succeeds_iff:
  "(\<exists>u. fst (resetPassword x resetToken password confirmPassword req s) = Inr u)
     = (password = confirmPassword
        \<and> (\<exists>u e. u \<in> set (users s) \<and> u_resetToken u = Some resetToken
               \<and> u_resetTokenExpiry u = Some e \<and> date_now x - 3600000 \<le> e))"
proof (cases "password = confirmPassword")
  case False
  then show ?thesis by (simp add: resetPassword_def)
next
  case True
  show ?thesis
  proof (cases "query_users_where_reset s resetToken (date_now x - 3600000)")
    case Nil
    then have "\<not> (\<exists>u e. u \<in> set (users s) \<and> u_resetToken u = Some resetToken
               \<and> u_resetTokenExpiry u = Some e \<and> date_now x - 3600000 \<le> e)"
      by (auto simp: query_users_where_reset_def filter_empty_conv)
    with True Nil show ?thesis by (simp add: resetPassword_def)
  next
    case (Cons u us)
    then have m: "u \<in> set (query_users_where_reset s resetToken (date_now x - 3600000))"
      by simp
    then have u: "u \<in> set (users s)" "u_resetToken u = Some resetToken"
      "\<exists>e. u_resetTokenExpiry u = Some e \<and> date_now x - 3600000 \<le> e"
      by (auto simp: query_users_where_reset_def split: option.splits)
    from u(1) have "find (\<lambda>r. u_email r = u_email u) (users s) \<noteq> None"
      by (auto simp: find_None_iff)
    then obtain r where "query_user_by_email s (u_email u) = Some r"
      by (auto simp: query_user_by_email_def)
    with True Cons have "\<exists>v. fst (resetPassword x resetToken password confirmPassword req s) = Inr v"
      by (simp add: resetPassword_def mutation_updateUser_by_email_def Let_def)
    with True u show ?thesis by blast
  qed
qed

text \<open>
  C4. \<^verbatim>\<open>requestReset\<close> at time 0 stores the token with the expiry 3600000 (one hour
  later). \<^verbatim>\<open>resetPassword\<close> with that token succeeds one millisecond after the stored
  expiry, and still two hours after the token was issued; it fails with "This token is
  either invalid or expired!" only from one millisecond later on. The comparison is
  against \<^verbatim>\<open>Date.now() - 3600000\<close>, so a token lives one hour past its expiry.
\<close>

theorem resetPassword_accepts_token_after_expiry:
  "users ex_reset_state
     = [ex_user\<lparr>u_resetToken := Some ''0a1b2c'', u_resetTokenExpiry := Some 3600000\<rparr>]
   \<and> fst (resetPassword (ex_ext\<lparr>date_now := 3600001\<rparr>) ''0a1b2c'' ''new'' ''new'' ex_anon
            ex_reset_state) = Inr (ex_user\<lparr>u_password := Bcrypt ''new'' 10\<rparr>)
   \<and> fst (resetPassword (ex_ext\<lparr>date_now := 7200000\<rparr>) ''0a1b2c'' ''new'' ''new'' ex_anon
            ex_reset_state) = Inr (ex_user\<lparr>u_password := Bcrypt ''new'' 10\<rparr>)
   \<and> fst (resetPassword (ex_ext\<lparr>date_now := 7200001\<rparr>) ''0a1b2c'' ''new'' ''new'' ex_anon
            ex_reset_state) = Inl (Error ''This token is either invalid or expired!'')"
  by (simp add: resetPassword_def store_defs ex_reset_state_users Let_def)
     (simp add: ex_defs)

section \<open>The e-mail address of a reset request\<close>

text \<open>
  What \<^verbatim>\<open>requestReset\<close> looks up: it fails with "No such user found", the store as it
  was, exactly when no user has the address as it was given.
\<close>

lemma requestReset_not_found_iff:
  "(requestReset x email req s = (Inl (Error (''No such user found for email '' @ email)), s))
     = (\<forall>u \<in> set (users s). u_email u \<noteq> email)"
proof (cases "query_user_by_email s email")
  case None
  then have "\<forall>u \<in> set (users s). u_email u \<noteq> email"
    by (auto simp: query_user_by_email_def find_None_iff)
  with None show ?thesis
    by (simp add: requestReset_def)
next
  case (Some u)
  then have "\<exists>u \<in> set (users s). u_email u = email"
    by (auto simp: query_user_by_email_def find_Some_iff)
  moreover from Some
  have "fst (requestReset x email req s) \<noteq> Inl (Error (''No such user found for email '' @ email))"
    by (simp add: requestReset_def mutation_updateUser_by_email_def Let_def
        split: option.splits)
  ultimately show ?thesis
    by (metis fst_conv)
qed

lemma toLowerCase_Bob: "toLowerCase ''Bob@Example.com'' = ''bob@example.com''"
  by code_simp

text \<open>
  C8. \<^verbatim>\<open>signup\<close> stores the address in lower case; \<^verbatim>\<open>requestReset\<close> looks the address
  up as it was given. A user who signed up as \<^verbatim>\<open>Bob@Example.com\<close> is stored as
  \<^verbatim>\<open>bob@example.com\<close>, a reset request for \<^verbatim>\<open>Bob@Example.com\<close> fails with "No such
  user found" and writes nothing, and one for \<^verbatim>\<open>bob@example.com\<close> succeeds.
\<close>

theorem requestReset_does_not_lower_case:
  "map u_email (users (snd (signup ''Bob'' ''Bob@Example.com'' ''pw'' ex_state)))
     = [''ann@example.com'', ''bob@example.com'']
   \<and> requestReset ex_ext ''Bob@Example.com'' ex_anon
        (snd (signup ''Bob'' ''Bob@Example.com'' ''pw'' ex_state))
       = (Inl (Error ''No such user found for email Bob@Example.com''),
          snd (signup ''Bob'' ''Bob@Example.com'' ''pw'' ex_state))
   \<and> fst (requestReset ex_ext ''bob@example.com'' ex_anon
        (snd (signup ''Bob'' ''Bob@Example.com'' ''pw'' ex_state))) = Inr ''Reset sent!''"
  by (simp add: signup_def requestReset_def toLowerCase_Bob store_defs Let_def ex_defs)

section \<open>Callers without a session\<close>

text \<open>
  C7, as it is stated, fails: without a \<^verbatim>\<open>userId\<close>, \<^verbatim>\<open>requestReset\<close> succeeds and stores
  a token, \<^verbatim>\<open>resetPassword\<close> succeeds, \<^verbatim>\<open>updateItem\<close> succeeds and changes the item,
  \<^verbatim>\<open>removeFromCart\<close> fails with an error that depends on what the store holds, and
  \<^verbatim>\<open>deleteItem\<close> fails with a \<^verbatim>\<open>TypeError\<close>.
\<close>

theorem unauthenticated_mutations_counterexample:
  "fst (requestReset ex_ext ''ann@example.com'' ex_anon ex_state) = Inr ''Reset sent!''
   \<and> users (snd (requestReset ex_ext ''ann@example.com'' ex_anon ex_state))
       = [ex_user\<lparr>u_resetToken := Some ''0a1b2c'', u_resetTokenExpiry := Some 3600000\<rparr>]
   \<and> fst (resetPassword ex_ext ''0a1b2c'' ''new'' ''new'' ex_anon ex_reset_state)
       = Inr (ex_user\<lparr>u_password := Bcrypt ''new'' 10\<rparr>)
   \<and> fst (updateItem 10 \<lparr>up_title = Some ''Boots'', up_description = None, up_price = Some 1\<rparr>
            ex_anon ex_state) = Inr (ex_item1\<lparr>i_title := ''Boots'', i_price := 1\<rparr>)
   \<and> items (snd (updateItem 10 \<lparr>up_title = Some ''Boots'', up_description = None, up_price = Some 1\<rparr>
            ex_anon ex_state)) = [ex_item1\<lparr>i_title := ''Boots'', i_price := 1\<rparr>, ex_item2]
   \<and> removeFromCart 100 ex_anon ex_state = (Inl (Error ''Operation unallowed''), ex_state)
   \<and> removeFromCart 7 ex_anon ex_state = (Inl (Error ''No CartItem Found!''), ex_state)
   \<and> deleteItem 10 ex_anon ex_state = (Inl TypeError, ex_state)"
proof -
  have a: "requestReset ex_ext ''ann@example.com'' ex_anon ex_state
             = (Inr ''Reset sent!'', ex_reset_state)"
    by (simp add: ex_reset_state_def requestReset_def store_defs ex_defs Let_def)
  have b: "fst (resetPassword ex_ext ''0a1b2c'' ''new'' ''new'' ex_anon ex_reset_state)
       = Inr (ex_user\<lparr>u_password := Bcrypt ''new'' 10\<rparr>)"
    by (simp add: resetPassword_def store_defs ex_reset_state_users Let_def ex_defs)
  have c: "updateItem 10 \<lparr>up_title = Some ''Boots'', up_description = None, up_price = Some 1\<rparr>
            ex_anon ex_state
       = (Inr (ex_item1\<lparr>i_title := ''Boots'', i_price := 1\<rparr>),
          ex_state\<lparr>items := [ex_item1\<lparr>i_title := ''Boots'', i_price := 1\<rparr>, ex_item2]\<rparr>)"
    by (simp add: updateItem_def store_defs ex_defs)
  have d: "removeFromCart 100 ex_anon ex_state = (Inl (Error ''Operation unallowed''), ex_state)"
    "removeFromCart 7 ex_anon ex_state = (Inl (Error ''No CartItem Found!''), ex_state)"
    by (simp_all add: removeFromCart_def query_cartItem_def ex_state_def ex_anon_def)
  have e: "deleteItem 10 ex_anon ex_state = (Inl TypeError, ex_state)"
    by (simp add: deleteItem_def query_item_def ex_state_def ex_item1_def ex_anon_def)
  from a b c d e show ?thesis
    by (simp add: ex_reset_state_users)
qed

text \<open>
  C7, amended. Without a \<^verbatim>\<open>userId\<close> in the request, \<^verbatim>\<open>createItem\<close>,
  \<^verbatim>\<open>updatePermissions\<close>, \<^verbatim>\<open>addToCart\<close> and \<^verbatim>\<open>createOrder\<close> fail with their login error
  on every store and return the store as it was; \<^verbatim>\<open>removeFromCart\<close> fails as well and
  returns the store as it was, with "No CartItem Found!" when the store has no such row
  and "Operation unallowed" when it has; \<^verbatim>\<open>requestReset\<close> and \<^verbatim>\<open>resetPassword\<close> do
  not look at the session: they do for this request what they do for any other.
\<close>

theorem unauthenticated_caller:
  assumes "userId req = None"
  shows "createItem args req s = (Inl (Error ''You need to login''), s)
       \<and> updatePermissions permissions targetId req s = (Inl (Error ''You must be logged in!''), s)
       \<and> addToCart iid req s = (Inl (Error ''You must be logged in!''), s)
       \<and> createOrder x token req s
           = (Inl (Error ''You must be signed in to complete this order.''), s)
       \<and> removeFromCart cid req s
           = (Inl (Error (if query_cartItem s cid = None then ''No CartItem Found!''
                          else ''Operation unallowed'')), s)
       \<and> requestReset x email req s = requestReset x email req' s
       \<and> resetPassword x resetToken password confirmPassword req s
           = resetPassword x resetToken password confirmPassword req' s"
  using assms
  by (auto simp: createItem_def updatePermissions_def addToCart_def createOrder_def
      removeFromCart_def requestReset_def resetPassword_def split: option.splits)

theorem unauthenticated_caller_witness:
  "createItem \<lparr>in_title = ''Cap'', in_description = ''Green'', in_image = None,
       in_largeImage = None, in_price = 700\<rparr> ex_anon ex_state
     = (Inl (Error ''You need to login''), ex_state)
   \<and> updatePermissions [''ADMIN''] 1 ex_anon ex_state
       = (Inl (Error ''You must be logged in!''), ex_state)
   \<and> addToCart 10 ex_anon ex_state = (Inl (Error ''You must be logged in!''), ex_state)
   \<and> createOrder ex_ext ''tok_visa'' ex_anon ex_state
       = (Inl (Error ''You must be signed in to complete this order.''), ex_state)
   \<and> removeFromCart 100 ex_anon ex_state = (Inl (Error ''Operation unallowed''), ex_state)
   \<and> requestReset ex_ext ''ann@example.com'' ex_anon ex_state
       = requestReset ex_ext ''ann@example.com'' ex_req ex_state"
proof -
  have h: "userId ex_anon = None"
    by (simp add: ex_anon_def)
  have q: "query_cartItem ex_state 100 \<noteq> None"
    by (simp add: query_cartItem_def ex_state_def)
  show ?thesis
    using unauthenticated_caller [OF h, of _ ex_state "[''ADMIN'']" 1 10 ex_ext "''tok_visa''" 100
        "''ann@example.com''" ex_req] q
    by simp
qed

end
